theory Spec2Isabelle
  imports Main "HOL-Library.AList"
begin

section \<open>Values exchanged with plugins\<close>

text \<open>
  The manager of \<^verbatim>\<open>src/app/plugin/pluginManager.js\<close> talks to plugins in JSON text.
  A JavaScript value that JSON can carry is a \<open>json\<close>; a value that may also be
  \<^verbatim>\<open>undefined\<close> is a \<open>json option\<close>, with \<open>None\<close> for \<^verbatim>\<open>undefined\<close>.
  A number is represented by the text that \<^verbatim>\<open>String(n)\<close> gives for it (\<^verbatim>\<open>1\<close>, \<^verbatim>\<open>0.5\<close>,
  \<^verbatim>\<open>1e+21\<close>), which identifies it and is what \<^verbatim>\<open>JSON.stringify\<close> writes. An object is
  the list of its own properties in insertion order.
\<close>

datatype json =
    JNull
  | JBool bool
  | JNum string
  | JStr string
  | JArr "json list"
  | JObj "(string \<times> json) list"

text \<open>
  Property read \<^verbatim>\<open>v.name\<close> on a value other than \<^verbatim>\<open>null\<close>, for the names the manager
  reads (\<^verbatim>\<open>value\<close>, \<^verbatim>\<open>key\<close>, \<^verbatim>\<open>type\<close>, \<^verbatim>\<open>id\<close>): an object gives its own property or
  \<^verbatim>\<open>undefined\<close>; arrays, strings, numbers and booleans give \<^verbatim>\<open>undefined\<close>.
  Reading a property of \<^verbatim>\<open>null\<close> throws; the caller checks for it.
\<close>

fun get_prop :: "json \<Rightarrow> string \<Rightarrow> json option" where
  "get_prop (JObj kvs) k = map_of kvs k"
| "get_prop _ k = None"

text \<open>JavaScript truthiness, as tested by \<^verbatim>\<open>if (x)\<close> and \<^verbatim>\<open>!x\<close>.\<close>

fun truthy :: "json option \<Rightarrow> bool" where
  "truthy None = False"
| "truthy (Some JNull) = False"
| "truthy (Some (JBool b)) = b"
| "truthy (Some (JNum n)) = (n \<noteq> ''0'')"
| "truthy (Some (JStr s)) = (s \<noteq> [])"
| "truthy (Some (JArr xs)) = True"
| "truthy (Some (JObj kvs)) = True"

fun join :: "string \<Rightarrow> string list \<Rightarrow> string" where
  "join sep [] = []"
| "join sep [x] = x"
| "join sep (x # y # ys) = x @ sep @ join sep (y # ys)"

text \<open>
  \<^verbatim>\<open>String(v)\<close>, as applied by a template literal and by a computed property name;
  \<open>None\<close> when the conversion throws \<^verbatim>\<open>TypeError\<close>. An array joins its elements with
  commas, \<^verbatim>\<open>null\<close> elements rendered empty. An object is \<^verbatim>\<open>[object Object]\<close>, unless it
  has an own property \<^verbatim>\<open>toString\<close>: parsed from JSON, that property is no function, and
  neither it nor \<^verbatim>\<open>valueOf\<close> yields a primitive.
\<close>

fun ToString :: "json \<Rightarrow> string option" where
  "ToString JNull = Some ''null''"
| "ToString (JBool b) = Some (if b then ''true'' else ''false'')"
| "ToString (JNum n) = Some n"
| "ToString (JStr s) = Some s"
| "ToString (JArr xs) =
     map_option (join '','') (those (map (\<lambda>x. if x = JNull then Some [] else ToString x) xs))"
| "ToString (JObj kvs) = (if map_of kvs ''toString'' = None then Some ''[object Object]'' else None)"

definition ToStringU :: "json option \<Rightarrow> string option" where
  "ToStringU v = (case v of None \<Rightarrow> Some ''undefined'' | Some x \<Rightarrow> ToString x)"

text \<open>
  What \<^verbatim>\<open>JSON.stringify\<close> writes for an object literal: a property whose value is
  \<^verbatim>\<open>undefined\<close> is left out, and \<^verbatim>\<open>undefined\<close> inside an array is written \<^verbatim>\<open>null\<close>.
  A message is kept as the JSON value its text denotes.
\<close>

definition json_field :: "string \<Rightarrow> json option \<Rightarrow> (string \<times> json) list" where
  "json_field k v = (case v of None \<Rightarrow> [] | Some x \<Rightarrow> [(k, x)])"

definition elem :: "json option \<Rightarrow> json" where
  "elem v = (case v of None \<Rightarrow> JNull | Some x \<Rightarrow> x)"

section \<open>The plugin manager\<close>

text \<open>
  \<open>'h\<close> is the type of the DOM handles given at registration. \<^verbatim>\<open>self.plugins\<close> and
  \<^verbatim>\<open>self.origins\<close> are plain objects used as dictionaries: association lists of their
  own properties, with \<open>AList.update\<close> for an assignment (in place for an existing key, at
  the end for a new one) and \<open>AList.delete\<close> for \<^verbatim>\<open>delete\<close>. Titles and urls are strings.
  \<^verbatim>\<open>self.inFocus\<close> starts \<^verbatim>\<open>undefined\<close>.
\<close>

record desc =
  title :: string
  url :: string

record 'h plugin =
  content :: 'h
  modal :: 'h
  origin :: string

record 'h manager =
  plugins :: "(string \<times> 'h plugin) list"
  origins :: "(string \<times> string) list"
  inFocus :: "string option"

definition new_manager :: "'h manager" where
  "new_manager = \<lparr>plugins = [], origins = [], inFocus = None\<rparr>"

text \<open>
  A read \<^verbatim>\<open>obj[k]\<close> of such a dictionary finds an own property, or else a member that
  the object inherits from \<^verbatim>\<open>Object.prototype\<close>, or else \<^verbatim>\<open>undefined\<close>. The inherited
  members are functions, and \<^verbatim>\<open>__proto__\<close> the prototype itself: all truthy, none with a
  property \<^verbatim>\<open>content\<close>.
\<close>

definition Object_prototype :: "string list" where
  "Object_prototype =
     [''constructor'', ''hasOwnProperty'', ''isPrototypeOf'', ''propertyIsEnumerable'',
      ''toLocaleString'', ''toString'', ''valueOf'', ''__proto__'', ''__defineGetter__'',
      ''__defineSetter__'', ''__lookupGetter__'', ''__lookupSetter__'']"

datatype 'a property = Own 'a | Inherited | Missing

definition lookup_property :: "(string \<times> 'a) list \<Rightarrow> string \<Rightarrow> 'a property" where
  "lookup_property obj k =
     (case map_of obj k of
        Some v \<Rightarrow> Own v
      | None \<Rightarrow> if k \<in> set Object_prototype then Inherited else Missing)"

text \<open>
  One call of \<^verbatim>\<open>contentWindow.postMessage(value, targetOrigin)\<close> on the iframe of a
  plugin: \<open>recipient\<close> is the \<^verbatim>\<open>name\<close> given to \<^verbatim>\<open>post\<close>, \<open>window\<close> the plugin's
  \<^verbatim>\<open>content\<close>, whose iframe is assumed present.
\<close>

record 'h delivery =
  recipient :: string
  window :: 'h
  message :: json
  targetOrigin :: string

datatype error = SyntaxError | TypeError | OtherError

text \<open>
  What a piece of code sends: the deliveries made in order, and the exception that ended
  it, if any. One piece after another: the second runs only if the first raised nothing.
  The result of an event listener adds the manager afterwards.
\<close>

type_synonym 'h sends = "'h delivery list \<times> error option"

type_synonym 'h result = "'h manager \<times> 'h delivery list \<times> error option"

definition and_then :: "'h sends \<Rightarrow> 'h sends \<Rightarrow> 'h sends" where
  "and_then a b = (case snd a of None \<Rightarrow> (fst a @ fst b, snd b) | Some e \<Rightarrow> a)"

fun for_each :: "('a \<Rightarrow> 'h sends) \<Rightarrow> 'a list \<Rightarrow> 'h sends" where
  "for_each f [] = ([], None)"
| "for_each f (x # xs) = and_then (f x) (for_each f xs)"

text \<open>
  \<^verbatim>\<open>PluginAPI\<close> is not part of the file: it is a parameter. \<open>pluginAPI k t\<close> is the value
  of \<^verbatim>\<open>pluginAPI[k] && pluginAPI[k][t]\<close>: \<open>None\<close> when it is falsy, \<open>NotCallable\<close> when it
  is truthy and no function, otherwise the function. A function of the API is called
  with its arguments and a callback; it is represented, as a function of the other
  arguments, by the \<^verbatim>\<open>(error, result)\<close> pairs with which it invokes the callback before
  it returns, and by the exception it raises, if any. A callback that it keeps and
  invokes later is an event of its own (see \<open>callback\<close> below). Functions of the API do
  not touch the manager, and do not catch what the callback raises.
\<close>

type_synonym completion = "json option \<times> json option"
type_synonym endpoint = "json list \<Rightarrow> completion list \<times> error option"
datatype member = Function endpoint | NotCallable
type_synonym api = "string \<Rightarrow> string \<Rightarrow> member option"

subsection \<open>Registration\<close>

definition unregister :: "desc \<Rightarrow> 'h manager \<Rightarrow> 'h manager" where
  "unregister d self =
     self\<lparr>plugins := AList.delete (title d) (plugins self),
          origins := AList.delete (url d) (origins self)\<rparr>"

text \<open>
  An assignment \<^verbatim>\<open>obj[k] = v\<close> creates or updates the own property \<open>k\<close>. The code does
  otherwise for the one key \<^verbatim>\<open>__proto__\<close>, whose assignment replaces the prototype of the
  dictionary: a descriptor with that title or url is not \<open>assignable\<close>, and \<open>register\<close>
  stands for the code on assignable descriptors.
\<close>

definition assignable :: "desc \<Rightarrow> bool" where
  "assignable d \<longleftrightarrow> title d \<noteq> ''__proto__'' \<and> url d \<noteq> ''__proto__''"

definition register :: "desc \<Rightarrow> 'h \<Rightarrow> 'h \<Rightarrow> 'h manager \<Rightarrow> 'h manager" where
  "register d mdl cnt self =
     self\<lparr>plugins := AList.update (title d) \<lparr>content = cnt, modal = mdl, origin = url d\<rparr> (plugins self),
          origins := AList.update (url d) (title d) (origins self)\<rparr>"

subsection \<open>Sending\<close>

text \<open>
  The guard of \<^verbatim>\<open>post\<close> passes for an inherited member too; reading
  \<^verbatim>\<open>.content.querySelector\<close> of it throws.
\<close>

definition post :: "'h manager \<Rightarrow> string \<Rightarrow> json \<Rightarrow> 'h sends" where
  "post self name v =
     (case lookup_property (plugins self) name of
        Own p \<Rightarrow>
          ([\<lparr>recipient = name, window = content p, message = v, targetOrigin = origin p\<rparr>], None)
      | Inherited \<Rightarrow> ([], Some TypeError)
      | Missing \<Rightarrow> ([], None))"

text \<open>
  \<^verbatim>\<open>for (var plugin in this.plugins)\<close> visits the own properties: first those whose name
  is an array index (the decimal text of a number below \<open>2\<^sup>3\<^sup>2 - 1\<close>, without leading
  zero) in ascending order, then the others in insertion order. \<^verbatim>\<open>Object.prototype\<close> has
  no enumerable member.
\<close>

definition is_digit :: "char \<Rightarrow> bool" where
  "is_digit c \<longleftrightarrow> c \<in> set ''0123456789''"

definition index_value :: "string \<Rightarrow> nat" where
  "index_value s = foldl (\<lambda>n c. 10 * n + (of_char c - 48)) 0 s"

definition array_index :: "string \<Rightarrow> bool" where
  "array_index s \<longleftrightarrow>
     s \<noteq> [] \<and> list_all is_digit s \<and> (hd s \<noteq> CHR ''0'' \<or> s = ''0'') \<and>
     index_value s < 4294967295"

definition for_in :: "(string \<times> 'a) list \<Rightarrow> string list" where
  "for_in obj =
     sort_key index_value (filter array_index (map fst obj)) @
     filter (\<lambda>k. \<not> array_index k) (map fst obj)"

definition broadcast :: "'h manager \<Rightarrow> json \<Rightarrow> 'h sends" where
  "broadcast self v = for_each (\<lambda>name. post self name v) (for_in (plugins self))"

definition postToOrigin :: "'h manager \<Rightarrow> string \<Rightarrow> json \<Rightarrow> 'h sends" where
  "postToOrigin self org v =
     (case map_of (origins self) org of
        None \<Rightarrow> ([], None)
      | Some t \<Rightarrow> if t \<noteq> [] then post self t v else ([], None))"

definition notification :: "string \<Rightarrow> string \<Rightarrow> json list \<Rightarrow> json" where
  "notification k t vs =
     JObj [(''action'', JStr ''notification''), (''key'', JStr k), (''type'', JStr t), (''value'', JArr vs)]"

subsection \<open>The \<^verbatim>\<open>tabChanged\<close> listener\<close>

definition tabChanged :: "api \<Rightarrow> 'h manager \<Rightarrow> string \<Rightarrow> 'h result" where
  "tabChanged pluginAPI self tabName =
     (let unfocused =
            (case inFocus self of
               None \<Rightarrow> ([], None)
             | Some f \<Rightarrow>
                 if f \<noteq> [] \<and> f \<noteq> tabName
                 then post self f (notification ''app'' ''unfocus'' [])
                 else ([], None))
      in case snd unfocused of
           Some e \<Rightarrow> (self, unfocused)
         | None \<Rightarrow>
             (case lookup_property (plugins self) tabName of
                Missing \<Rightarrow> (self, unfocused)
              | _ \<Rightarrow>
                  (let focused =
                         and_then unfocused (post self tabName (notification ''app'' ''focus'' []))
                   in case snd focused of
                        Some e \<Rightarrow> (self, focused)
                      | None \<Rightarrow>
                          (let self' = self\<lparr>inFocus := Some tabName\<rparr>
                           in case pluginAPI ''compiler'' ''getCompilationResult'' of
                                Some (Function getCompilationResult) \<Rightarrow>
                                  (let called = getCompilationResult [JStr tabName];
                                       pushed =
                                         for_each
                                           (\<lambda>(err, data).
                                              if \<not> truthy err then ([], None)
                                              else post self' tabName
                                                     (notification ''compiler'' ''compilationData''
                                                        [elem data]))
                                           (fst called)
                                   in (self', and_then focused (and_then pushed ([], snd called))))
                              | _ \<Rightarrow> (self', fst focused, Some TypeError)))))"

subsection \<open>The \<^verbatim>\<open>message\<close> listener\<close>

text \<open>
  \<open>ev_data\<close> is the outcome of \<^verbatim>\<open>JSON.parse(event.data)\<close>: \<open>None\<close> when it throws
  \<^verbatim>\<open>SyntaxError\<close>. \<open>ev_origin\<close> is a serialised origin (scheme, host and port, or
  \<^verbatim>\<open>null\<close>), never the name of a member of \<^verbatim>\<open>Object.prototype\<close>: the read of
  \<^verbatim>\<open>self.origins\<close> at it finds an own property or \<^verbatim>\<open>undefined\<close>.
\<close>

record message_event =
  ev_type :: string
  ev_origin :: string
  ev_data :: "json option"

definition response_message ::
  "json option \<Rightarrow> json option \<Rightarrow> json option \<Rightarrow> json option \<Rightarrow> json option \<Rightarrow> json" where
  "response_message key type callid err res =
     JObj (json_field ''id'' callid @ [(''action'', JStr ''response'')] @ json_field ''key'' key @
           json_field ''type'' type @ json_field ''error'' err @ [(''value'', JArr [elem res])])"

definition response ::
  "'h manager \<Rightarrow> string \<Rightarrow> json option \<Rightarrow> json option \<Rightarrow> json option \<Rightarrow> json option \<Rightarrow> json option
     \<Rightarrow> 'h sends" where
  "response self org key type callid err res =
     postToOrigin self org (response_message key type callid err res)"

text \<open>
  The callback pushed onto \<^verbatim>\<open>data.value\<close>. It reads the registry when it is invoked:
  \<open>self\<close> is the manager at that moment, which is the manager of the listener for a
  callback made before the function of the API returns, and a later one otherwise.
\<close>

definition callback :: "string \<Rightarrow> json \<Rightarrow> 'h manager \<Rightarrow> json option \<Rightarrow> json option \<Rightarrow> 'h sends" where
  "callback org data self err res =
     response self org (get_prop data ''key'') (get_prop data ''type'') (get_prop data ''id'') err res"

definition not_present :: "string \<Rightarrow> string \<Rightarrow> string" where
  "not_present k t = ''Endpoint '' @ k @ ''/'' @ t @ '' not present''"

text \<open>
  The key is converted to a property name in the guard. The type is converted there too
  when \<^verbatim>\<open>pluginAPI[data.key]\<close> is truthy, and otherwise in the template literal of the
  else branch, before \<^verbatim>\<open>response\<close> is called: a conversion that throws ends the listener
  with nothing sent in either case.
\<close>

definition dispatch :: "api \<Rightarrow> 'h manager \<Rightarrow> string \<Rightarrow> string \<Rightarrow> json \<Rightarrow> 'h result" where
  "dispatch pluginAPI self org extension data =
     (if data = JNull then (self, [], Some TypeError)
      else case get_prop data ''value'' of
             Some (JArr vs) \<Rightarrow>
               (let args = JStr extension # vs
                in case ToStringU (get_prop data ''key'') of
                     None \<Rightarrow> (self, [], Some TypeError)
                   | Some k \<Rightarrow>
                       (case ToStringU (get_prop data ''type'') of
                          None \<Rightarrow> (self, [], Some TypeError)
                        | Some t \<Rightarrow>
                            (case pluginAPI k t of
                               Some (Function endpoint) \<Rightarrow>
                                 (let called = endpoint args
                                  in (self,
                                      and_then
                                        (for_each (\<lambda>(err, res). callback org data self err res)
                                           (fst called))
                                        ([], snd called)))
                             | Some NotCallable \<Rightarrow> (self, [], Some TypeError)
                             | None \<Rightarrow>
                                 (self,
                                  response self org (get_prop data ''key'') (get_prop data ''type'')
                                    (get_prop data ''id'') (Some (JStr (not_present k t)))
                                    (Some JNull)))))
           | _ \<Rightarrow> (self, [], Some TypeError))"

definition onMessage :: "api \<Rightarrow> 'h manager \<Rightarrow> message_event \<Rightarrow> 'h result" where
  "onMessage pluginAPI self event =
     (if ev_type event \<noteq> ''message'' then (self, [], None)
      else (case map_of (origins self) (ev_origin event) of
              None \<Rightarrow> (self, [], None)
            | Some extension \<Rightarrow>
                (if extension = [] then (self, [], None)
                 else (case ev_data event of
                         None \<Rightarrow> (self, [], Some SyntaxError)
                       | Some data \<Rightarrow>
                           dispatch pluginAPI self (ev_origin event) extension data))))"

section \<open>Sequences of registrations\<close>

text \<open>
  The calls that change the registry, and a run of them from the manager the constructor
  builds.
\<close>

datatype 'h op = Register desc 'h 'h | Unregister desc

fun apply_op :: "'h manager \<Rightarrow> 'h op \<Rightarrow> 'h manager" where
  "apply_op self (Register d mdl cnt) = register d mdl cnt self"
| "apply_op self (Unregister d) = unregister d self"

fun op_desc :: "'h op \<Rightarrow> desc" where
  "op_desc (Register d mdl cnt) = d"
| "op_desc (Unregister d) = d"

definition run :: "'h op list \<Rightarrow> 'h manager" where
  "run ops = foldl apply_op new_manager ops"

text \<open>
  The registry invariant in the words of the specification: an origin resolves to a title
  exactly when the plugin of that title records this origin.
\<close>

definition consistent :: "'h manager \<Rightarrow> bool" where
  "consistent self \<longleftrightarrow>
     (\<forall>u t. map_of (origins self) u = Some t \<longleftrightarrow>
            (\<exists>p. map_of (plugins self) t = Some p \<and> origin p = u))"

text \<open>
  A descriptor is compatible with the registry when its title is free or bound to its
  url, and its url is free or bound to its title.
\<close>

definition compatible :: "'h manager \<Rightarrow> desc \<Rightarrow> bool" where
  "compatible self d \<longleftrightarrow>
     (case map_of (plugins self) (title d) of None \<Rightarrow> True | Some p \<Rightarrow> origin p = url d) \<and>
     (case map_of (origins self) (url d) of None \<Rightarrow> True | Some t \<Rightarrow> t = title d)"

fun compatible_run :: "'h manager \<Rightarrow> 'h op list \<Rightarrow> bool" where
  "compatible_run self [] = True"
| "compatible_run self (x # xs) =
     (compatible self (op_desc x) \<and> compatible_run (apply_op self x) xs)"

section \<open>Payloads that end the listener\<close>

text \<open>A parsed payload whose \<^verbatim>\<open>value\<close> is an array.\<close>

definition array_value :: "json \<Rightarrow> bool" where
  "array_value data = (case get_prop data ''value'' of Some (JArr vs) \<Rightarrow> True | _ \<Rightarrow> False)"

text \<open>
  The payloads on which the listener raises before it sends anything: text that is no
  JSON; a value whose \<^verbatim>\<open>value\<close> is no array; a key or type whose conversion to a
  property name throws; a key and type that name a truthy member of the API that is no
  function.
\<close>

definition rejected :: "api \<Rightarrow> json option \<Rightarrow> bool" where
  "rejected pluginAPI payload =
     (case payload of
        None \<Rightarrow> True
      | Some data \<Rightarrow>
          \<not> array_value data \<or>
          (case ToStringU (get_prop data ''key'') of
             None \<Rightarrow> True
           | Some k \<Rightarrow>
               (case ToStringU (get_prop data ''type'') of
                  None \<Rightarrow> True
                | Some t \<Rightarrow> pluginAPI k t = Some NotCallable)))"

section \<open>A sample installation\<close>

text \<open>
  Two plugins with natural numbers for DOM handles, the request of the documentation
  comment, and some shapes of \<^verbatim>\<open>PluginAPI\<close>: none, a \<^verbatim>\<open>cfg/getConfig\<close> endpoint that
  succeeds with \<^verbatim>\<open>hello\<close>, and a compiler whose \<^verbatim>\<open>getCompilationResult\<close> calls back
  with data and no error, or with an error and no data.
\<close>

definition plugin_A :: desc where
  "plugin_A = \<lparr>title = ''A'', url = ''https://a''\<rparr>"

definition plugin_B :: desc where
  "plugin_B = \<lparr>title = ''B'', url = ''https://b''\<rparr>"

definition plugin_A_moved :: desc where
  "plugin_A_moved = \<lparr>title = ''A'', url = ''https://a2''\<rparr>"

definition plugin_constructor :: desc where
  "plugin_constructor = \<lparr>title = ''constructor'', url = ''https://c''\<rparr>"

definition two_plugins :: "nat manager" where
  "two_plugins = register plugin_B 3 4 (register plugin_A 1 2 new_manager)"

definition request :: json where
  "request = JObj [(''id'', JNum ''1''), (''action'', JStr ''request''), (''key'', JStr ''cfg''),
                   (''type'', JStr ''getConfig''), (''value'', JArr [JStr ''f.txt''])]"

definition from_origin :: "string \<Rightarrow> json option \<Rightarrow> message_event" where
  "from_origin org parsed = \<lparr>ev_type = ''message'', ev_origin = org, ev_data = parsed\<rparr>"

definition no_api :: api where
  "no_api k t = None"

definition getConfig :: endpoint where
  "getConfig args = ([(Some JNull, Some (JStr ''hello''))], None)"

definition cfg_api :: api where
  "cfg_api k t = (if k = ''cfg'' \<and> t = ''getConfig'' then Some (Function getConfig) else None)"

definition compiler_with_data :: api where
  "compiler_with_data k t =
     (if k = ''compiler'' \<and> t = ''getCompilationResult''
      then Some (Function (\<lambda>args. ([(Some JNull, Some (JStr ''contracts''))], None))) else None)"

definition compiler_without_data :: api where
  "compiler_without_data k t =
     (if k = ''compiler'' \<and> t = ''getCompilationResult''
      then Some (Function (\<lambda>args. ([(Some (JStr ''no compilation''), None)], None))) else None)"

definition focused_A :: "nat manager" where
  "focused_A = two_plugins\<lparr>inFocus := Some ''A''\<rparr>"

definition sample_ops :: "nat op list" where
  "sample_ops = [Register plugin_A 1 2, Register plugin_B 3 4, Unregister plugin_A,
                 Register plugin_A_moved 5 6]"

definition moved_ops :: "nat op list" where
  "moved_ops = [Register plugin_A 1 2, Register plugin_A_moved 5 6]"

definition orphaned_origin :: "nat manager" where
  "orphaned_origin = unregister \<lparr>title = ''A'', url = ''https://elsewhere''\<rparr> two_plugins"

definition A_moved :: "nat manager" where
  "A_moved = register plugin_A_moved 5 6 two_plugins"

definition constructor_focused :: "nat manager" where
  "constructor_focused = (register plugin_constructor 7 8 two_plugins)\<lparr>inFocus := Some ''constructor''\<rparr>"

definition unnameable_key :: json where
  "unnameable_key = JObj [(''id'', JNum ''2''), (''action'', JStr ''request''),
                          (''key'', JObj [(''toString'', JNum ''1'')]),
                          (''type'', JStr ''getConfig''), (''value'', JArr [])]"

definition not_callable_api :: api where
  "not_callable_api k t = (if k = ''cfg'' \<and> t = ''getConfig'' then Some NotCallable else None)"

section \<open>The sample installation, evaluated\<close>

lemma sample_origins: "origins two_plugins = [(''https://a'', ''A''), (''https://b'', ''B'')]"
  by (simp add: two_plugins_def register_def new_manager_def plugin_A_def plugin_B_def)

lemma sample_plugins:
  "plugins two_plugins =
     [(''A'', \<lparr>content = 2, modal = 1, origin = ''https://a''\<rparr>),
      (''B'', \<lparr>content = 4, modal = 3, origin = ''https://b''\<rparr>)]"
  by (simp add: two_plugins_def register_def new_manager_def plugin_A_def plugin_B_def)

lemma sample_inFocus: "inFocus two_plugins = None"
  by (simp add: two_plugins_def register_def new_manager_def)

section \<open>Messages from unknown origins\<close>

text \<open>
  C1. A message whose origin has no entry in \<open>origins\<close> makes the listener return at once:
  nothing is sent, no exception is raised and the manager is unchanged.
\<close>

theorem unknown_origin_dropped:
  assumes "map_of (origins self) (ev_origin event) = None"
  shows "onMessage pluginAPI self event = (self, [], None)"
  using assms by (simp add: onMessage_def)

theorem unknown_origin_dropped_witness:
  "map_of (origins two_plugins) (ev_origin (from_origin ''https://evil'' (Some request))) = None \<and>
   onMessage cfg_api two_plugins (from_origin ''https://evil'' (Some request)) = (two_plugins, [], None)"
  using unknown_origin_dropped [of two_plugins "from_origin ''https://evil'' (Some request)" cfg_api]
  by (simp add: sample_origins from_origin_def)

section \<open>Sending to plugins\<close>

lemma and_then_quiet [simp]: "and_then (ds, None) b = (ds @ fst b, snd b)"
  by (simp add: and_then_def)

lemma and_then_raised [simp]: "and_then (ds, Some e) b = (ds, Some e)"
  by (simp add: and_then_def)

lemma for_each_quiet:
  "(\<And>x. x \<in> set xs \<Longrightarrow> snd (f x) = None) \<Longrightarrow>
   for_each f xs = (concat (map (\<lambda>x. fst (f x)) xs), None)"
proof (induction xs)
  case Nil
  then show ?case by simp
next
  case (Cons x xs)
  have "snd (f x) = None"
    by (rule Cons.prems) simp
  moreover have "for_each f xs = (concat (map (\<lambda>x. fst (f x)) xs), None)"
    by (rule Cons.IH) (simp add: Cons.prems)
  ultimately show ?case
    by (simp add: and_then_def)
qed

lemma post_known:
  "map_of (plugins self) name = Some p \<Longrightarrow>
   post self name v =
     ([\<lparr>recipient = name, window = content p, message = v, targetOrigin = origin p\<rparr>], None)"
  by (simp add: post_def lookup_property_def)

lemma post_unknown:
  "map_of (plugins self) name = None \<Longrightarrow> name \<notin> set Object_prototype \<Longrightarrow>
   post self name v = ([], None)"
  by (simp add: post_def lookup_property_def)

lemma post_inherited:
  "map_of (plugins self) name = None \<Longrightarrow> name \<in> set Object_prototype \<Longrightarrow>
   post self name v = ([], Some TypeError)"
  by (simp add: post_def lookup_property_def)

lemma post_recipient:
  "d \<in> set (fst (post self name v)) \<Longrightarrow> recipient d = name \<and> map_of (plugins self) name \<noteq> None"
  by (auto simp: post_def lookup_property_def split: option.splits if_splits)

lemma set_for_in: "set (for_in obj) = fst ` set obj"
  by (auto simp: for_in_def)

lemma distinct_for_in: "distinct (map fst obj) \<Longrightarrow> distinct (for_in obj)"
  by (auto simp: for_in_def)

lemma length_for_in: "length (for_in obj) = length obj"
proof -
  have "length (filter P ks) + length (filter (\<lambda>k. \<not> P k) ks) = length ks" for P and ks :: "string list"
    by (rule sum_length_filter_compl)
  from this [of array_index "map fst obj"] show ?thesis
    by (simp del: length_filter_map add: for_in_def)
qed

lemma broadcast_deliveries:
  "broadcast self v =
     (map (\<lambda>t. \<lparr>recipient = t, window = content (the (map_of (plugins self) t)), message = v,
                targetOrigin = origin (the (map_of (plugins self) t))\<rparr>)
          (for_in (plugins self)),
      None)"
proof -
  have own: "post self t v =
      ([\<lparr>recipient = t, window = content (the (map_of (plugins self) t)), message = v,
         targetOrigin = origin (the (map_of (plugins self) t))\<rparr>], None)"
    if "t \<in> set (for_in (plugins self))" for t
  proof -
    from that have "t \<in> fst ` set (plugins self)" by (simp add: set_for_in)
    then obtain p where "map_of (plugins self) t = Some p"
      by (metis map_of_eq_None_iff not_Some_eq)
    then show ?thesis by (simp add: post_known)
  qed
  have "for_each (\<lambda>name. post self name v) ks =
      (map (\<lambda>t. \<lparr>recipient = t, window = content (the (map_of (plugins self) t)), message = v,
                  targetOrigin = origin (the (map_of (plugins self) t))\<rparr>) ks, None)"
    if "set ks \<subseteq> set (for_in (plugins self))" for ks
    using that by (induction ks) (simp_all add: own)
  then show ?thesis by (simp add: broadcast_def)
qed

lemma filter_key_once:
  "distinct (map f xs) \<Longrightarrow> t \<in> f ` set xs \<Longrightarrow> length (filter (\<lambda>d. f d = t) xs) = 1"
  by (induction xs) (auto simp: filter_empty_conv image_iff)



section \<open>Registration and focus\<close>

lemma plugins_unregister: "map_of (plugins (unregister d self)) = (map_of (plugins self))(title d := None)"
  by (simp add: unregister_def delete_conv')

lemma origins_unregister: "map_of (origins (unregister d self)) = (map_of (origins self))(url d := None)"
  by (simp add: unregister_def delete_conv')

lemma inFocus_unregister: "inFocus (unregister d self) = inFocus self"
  by (simp add: unregister_def)

lemma plugins_register:
  "map_of (plugins (register d mdl cnt self)) =
     (map_of (plugins self))(title d \<mapsto> \<lparr>content = cnt, modal = mdl, origin = url d\<rparr>)"
  by (simp add: register_def update_conv')

lemma origins_register:
  "map_of (origins (register d mdl cnt self)) = (map_of (origins self))(url d \<mapsto> title d)"
  by (simp add: register_def update_conv')

lemma inFocus_register: "inFocus (register d mdl cnt self) = inFocus self"
  by (simp add: register_def)

lemma for_each_recipient:
  assumes "\<And>x d. x \<in> set xs \<Longrightarrow> d \<in> set (fst (f x)) \<Longrightarrow> P d"
    and "d \<in> set (fst (for_each f xs))"
  shows "P d"
  using assms
proof (induction xs)
  case Nil
  then show ?case by simp
next
  case (Cons x xs)
  show ?case
  proof (cases "snd (f x)")
    case None
    then have "f x = (fst (f x), None)" by (metis prod.collapse)
    then have "fst (for_each f (x # xs)) = fst (f x) @ fst (for_each f xs)"
      by (metis and_then_quiet for_each.simps(2) fst_conv)
    with Cons.prems(2) consider "d \<in> set (fst (f x))" | "d \<in> set (fst (for_each f xs))"
      by auto
    then show ?thesis
    proof cases
      case 1
      with Cons.prems(1) [of x d] show ?thesis by simp
    next
      case 2
      show ?thesis
        by (rule Cons.IH [OF _ 2]) (rule Cons.prems(1), simp_all)
    qed
  next
    case (Some e)
    then have "f x = (fst (f x), Some e)" by (metis prod.collapse)
    then have "fst (for_each f (x # xs)) = fst (f x)"
      by (metis and_then_raised for_each.simps(2) fst_conv)
    with Cons.prems(2) have "d \<in> set (fst (f x))" by simp
    with Cons.prems(1) [of x d] show ?thesis by simp
  qed
qed

text \<open>Whatever \<open>tabChanged\<close> delivers goes to a title with an own entry in \<open>plugins\<close>.\<close>

lemma tabChanged_recipients:
  assumes "d \<in> set (fst (snd (tabChanged pluginAPI self tabName)))"
  shows "map_of (plugins self) (recipient d) \<noteq> None"
proof -
  have p: "map_of (plugins self) (recipient x) \<noteq> None"
    if "x \<in> set (fst (post s name v))" "plugins s = plugins self" for x s name v
    using post_recipient [OF that(1)] that(2) by simp
  have e: "map_of (plugins self) (recipient x) \<noteq> None"
    if "x \<in> set (fst (for_each (\<lambda>(err, data). if \<not> truthy err then ([], None) else post s name (g data)) cs))"
      "plugins s = plugins self" for x s name g cs
    using that(1)
    by (rule for_each_recipient [rotated]) (auto split: if_splits dest: p [OF _ that(2)])
  show ?thesis
    using assms
    by (auto simp: tabChanged_def Let_def and_then_def
        split: option.splits if_splits member.splits property.splits dest: p e)
qed




section \<open>The registry invariant\<close>

text \<open>The properties of \<open>plugins\<close> stay pairwise distinct, as those of an object are.\<close>

lemma distinct_apply_op:
  "distinct (map fst (plugins self)) \<Longrightarrow> distinct (map fst (plugins (apply_op self x)))"
  by (cases x) (simp_all add: register_def unregister_def distinct_update distinct_delete)

lemma distinct_foldl:
  "distinct (map fst (plugins self)) \<Longrightarrow> distinct (map fst (plugins (foldl apply_op self ops)))"
  by (induction ops arbitrary: self) (simp_all add: distinct_apply_op)

lemma distinct_run: "distinct (map fst (plugins (run ops)))"
  unfolding run_def by (rule distinct_foldl) (simp add: new_manager_def)

lemma consistent_new: "consistent new_manager"
  by (simp add: consistent_def new_manager_def)

lemma consistent_register:
  assumes c: "consistent self" and k: "compatible self d"
  shows "consistent (register d mdl cnt self)"
  unfolding consistent_def
proof (intro allI)
  fix u t
  let ?P = "map_of (plugins self)" and ?O = "map_of (origins self)"
  from c have inv: "\<And>u t. ?O u = Some t \<longleftrightarrow> (\<exists>p. ?P t = Some p \<and> origin p = u)"
    by (simp add: consistent_def)
  from k have kp: "\<And>p. ?P (title d) = Some p \<Longrightarrow> origin p = url d"
    and ko: "\<And>t. ?O (url d) = Some t \<Longrightarrow> t = title d"
    by (simp_all add: compatible_def)
  show "map_of (origins (register d mdl cnt self)) u = Some t \<longleftrightarrow>
        (\<exists>p. map_of (plugins (register d mdl cnt self)) t = Some p \<and> origin p = u)"
  proof (cases "u = url d")
    case True
    show ?thesis
    proof (cases "t = title d")
      case True
      with \<open>u = url d\<close> show ?thesis by (simp add: plugins_register origins_register)
    next
      case False
      have "\<not> (\<exists>p. ?P t = Some p \<and> origin p = url d)"
        using inv [of "url d" t] ko [of t] False by blast
      with False \<open>u = url d\<close> show ?thesis
        by (auto simp: plugins_register origins_register)
    qed
  next
    case False
    show ?thesis
    proof (cases "t = title d")
      case True
      have "?O u \<noteq> Some (title d)"
        using inv [of u "title d"] kp False by blast
      with True False show ?thesis
        by (auto simp: plugins_register origins_register)
    next
      case False
      with \<open>u \<noteq> url d\<close> show ?thesis
        by (simp add: plugins_register origins_register inv)
    qed
  qed
qed

lemma consistent_unregister:
  assumes c: "consistent self" and k: "compatible self d"
  shows "consistent (unregister d self)"
  unfolding consistent_def
proof (intro allI)
  fix u t
  let ?P = "map_of (plugins self)" and ?O = "map_of (origins self)"
  from c have inv: "\<And>u t. ?O u = Some t \<longleftrightarrow> (\<exists>p. ?P t = Some p \<and> origin p = u)"
    by (simp add: consistent_def)
  from k have kp: "\<And>p. ?P (title d) = Some p \<Longrightarrow> origin p = url d"
    and ko: "\<And>t. ?O (url d) = Some t \<Longrightarrow> t = title d"
    by (simp_all add: compatible_def)
  show "map_of (origins (unregister d self)) u = Some t \<longleftrightarrow>
        (\<exists>p. map_of (plugins (unregister d self)) t = Some p \<and> origin p = u)"
  proof (cases "u = url d")
    case True
    have "\<not> (\<exists>p. t \<noteq> title d \<and> ?P t = Some p \<and> origin p = url d)"
      using inv [of "url d" t] ko [of t] by blast
    with True show ?thesis
      by (auto simp: plugins_unregister origins_unregister)
  next
    case False
    have "t \<noteq> title d" if "?O u = Some t"
      using inv [of u t] kp that False by blast
    with False show ?thesis
      by (auto simp: plugins_unregister origins_unregister inv)
  qed
qed

lemma consistent_apply_op:
  "consistent self \<Longrightarrow> compatible self (op_desc x) \<Longrightarrow> consistent (apply_op self x)"
  by (cases x) (simp_all add: consistent_register consistent_unregister)

lemma consistent_foldl:
  "consistent self \<Longrightarrow> compatible_run self ops \<Longrightarrow> consistent (foldl apply_op self ops)"
  by (induction ops arbitrary: self) (simp_all add: consistent_apply_op)

lemma compatible_run_take: "compatible_run self ops \<Longrightarrow> compatible_run self (take n ops)"
proof (induction ops arbitrary: self n)
  case Nil
  then show ?case by simp
next
  case (Cons x xs)
  then show ?case by (cases n) simp_all
qed

text \<open>
  Compatibility is also necessary: on a consistent registry, an operation with an
  incompatible descriptor breaks the invariant.
\<close>

lemma incompatible_register:
  assumes c: "consistent self" and k: "\<not> compatible self d"
  shows "\<not> consistent (register d mdl cnt self)"
proof
  assume r: "consistent (register d mdl cnt self)"
  let ?P = "map_of (plugins self)" and ?O = "map_of (origins self)"
  from c have inv: "\<And>u t. ?O u = Some t \<longleftrightarrow> (\<exists>p. ?P t = Some p \<and> origin p = u)"
    by (simp add: consistent_def)
  from r have inv': "\<And>u t. ((?O(url d \<mapsto> title d)) u = Some t) \<longleftrightarrow>
      (\<exists>p. (?P(title d \<mapsto> \<lparr>content = cnt, modal = mdl, origin = url d\<rparr>)) t = Some p \<and> origin p = u)"
    by (simp add: consistent_def plugins_register origins_register)
  from k consider p where "?P (title d) = Some p" "origin p \<noteq> url d"
    | t where "?O (url d) = Some t" "t \<noteq> title d"
    by (auto simp: compatible_def split: option.splits)
  then show False
  proof cases
    case 1
    with inv [of "origin p" "title d"] have "?O (origin p) = Some (title d)" by simp
    with 1 inv' [of "origin p" "title d"] show False by simp
  next
    case 2
    with inv [of "url d" t] obtain p where "?P t = Some p" "origin p = url d" by auto
    with 2 inv' [of "url d" t] show False by simp
  qed
qed

lemma incompatible_unregister:
  assumes c: "consistent self" and k: "\<not> compatible self d"
  shows "\<not> consistent (unregister d self)"
proof
  assume r: "consistent (unregister d self)"
  let ?P = "map_of (plugins self)" and ?O = "map_of (origins self)"
  from c have inv: "\<And>u t. ?O u = Some t \<longleftrightarrow> (\<exists>p. ?P t = Some p \<and> origin p = u)"
    by (simp add: consistent_def)
  from r have inv': "\<And>u t. ((?O(url d := None)) u = Some t) \<longleftrightarrow>
      (\<exists>p. (?P(title d := None)) t = Some p \<and> origin p = u)"
    by (simp add: consistent_def plugins_unregister origins_unregister)
  from k consider p where "?P (title d) = Some p" "origin p \<noteq> url d"
    | t where "?O (url d) = Some t" "t \<noteq> title d"
    by (auto simp: compatible_def split: option.splits)
  then show False
  proof cases
    case 1
    with inv [of "origin p" "title d"] have "?O (origin p) = Some (title d)" by simp
    with 1 inv' [of "origin p" "title d"] show False by simp
  next
    case 2
    with inv [of "url d" t] obtain p where "?P t = Some p" "origin p = url d" by auto
    with 2 inv' [of "url d" t] show False by simp
  qed
qed

lemma consistent_apply_op_iff:
  assumes "consistent self"
  shows "consistent (apply_op self x) \<longleftrightarrow> compatible self (op_desc x)"
  using assms consistent_apply_op [of self x]
  by (cases x) (auto dest: incompatible_register incompatible_unregister)




section \<open>Requests\<close>

lemma response_known:
  assumes "map_of (origins self) org = Some t" "t \<noteq> []" "map_of (plugins self) t = Some p"
  shows "response self org key type callid err res =
         ([\<lparr>recipient = t, window = content p,
            message = response_message key type callid err res, targetOrigin = origin p\<rparr>], None)"
  using assms by (simp add: response_def postToOrigin_def post_known)

lemma callback_known:
  assumes "map_of (origins self) org = Some t" "t \<noteq> []" "map_of (plugins self) t = Some p"
  shows "callback org data self err res =
         ([\<lparr>recipient = t, window = content p,
            message = response_message (get_prop data ''key'') (get_prop data ''type'')
                        (get_prop data ''id'') err res,
            targetOrigin = origin p\<rparr>], None)"
  unfolding callback_def using assms by (rule response_known)

lemma callbacks_known:
  assumes "map_of (origins self) org = Some t" "t \<noteq> []" "map_of (plugins self) t = Some p"
  shows "for_each (\<lambda>(err, res). callback org data self err res) cs =
         (map (\<lambda>(err, res). \<lparr>recipient = t, window = content p,
                 message = response_message (get_prop data ''key'') (get_prop data ''type'')
                             (get_prop data ''id'') err res,
                 targetOrigin = origin p\<rparr>) cs,
          None)"
  by (induction cs) (auto simp: callback_known [OF assms])

lemma onMessage_known:
  assumes "ev_type event = ''message''"
    and "map_of (origins self) (ev_origin event) = Some t" and "t \<noteq> []"
    and "ev_data event = Some data"
  shows "onMessage pluginAPI self event = dispatch pluginAPI self (ev_origin event) t data"
  using assms by (simp add: onMessage_def)

lemma dispatch_found:
  assumes "get_prop data ''value'' = Some (JArr vs)"
    and "ToStringU (get_prop data ''key'') = Some k"
    and "ToStringU (get_prop data ''type'') = Some ty"
    and "pluginAPI k ty = Some (Function endpoint)"
  shows "dispatch pluginAPI self org t data =
         (self,
          and_then (for_each (\<lambda>(err, res). callback org data self err res)
                      (fst (endpoint (JStr t # vs))))
                   ([], snd (endpoint (JStr t # vs))))"
proof -
  from assms(1) have "data \<noteq> JNull" by auto
  with assms show ?thesis by (simp add: dispatch_def Let_def)
qed

lemma dispatch_missing:
  assumes "get_prop data ''value'' = Some (JArr vs)"
    and "ToStringU (get_prop data ''key'') = Some k"
    and "ToStringU (get_prop data ''type'') = Some ty"
    and "pluginAPI k ty = None"
  shows "dispatch pluginAPI self org t data =
         (self,
          response self org (get_prop data ''key'') (get_prop data ''type'') (get_prop data ''id'')
            (Some (JStr (not_present k ty))) (Some JNull))"
proof -
  from assms(1) have "data \<noteq> JNull" by auto
  with assms show ?thesis by (simp add: dispatch_def Let_def)
qed

lemma dispatch_rejected:
  assumes "rejected pluginAPI (Some data)"
  shows "dispatch pluginAPI self org t data = (self, [], Some TypeError)"
  using assms
  by (auto simp: dispatch_def rejected_def array_value_def Let_def
      split: option.splits json.splits member.splits)

lemma response_message_props:
  "get_prop (response_message key type callid err res) ''id'' = callid"
  "get_prop (response_message key type callid err res) ''action'' = Some (JStr ''response'')"
  "get_prop (response_message key type callid err res) ''key'' = key"
  "get_prop (response_message key type callid err res) ''type'' = type"
  "get_prop (response_message key type callid err res) ''error'' = err"
  "get_prop (response_message key type callid err res) ''value'' = Some (JArr [elem res])"
  by (auto simp: response_message_def json_field_def split: option.splits)

text \<open>
  C2, as amended. A request (a parsed payload whose \<^verbatim>\<open>value\<close> is an array and whose key
  and type convert to property names) arrives from an origin that \<open>origins\<close> maps to a
  non-empty title with an entry in \<open>plugins\<close>, and the endpoint at its key and type
  invokes the callback once before it returns, with a \<^verbatim>\<open>null\<close> or \<^verbatim>\<open>undefined\<close> error.
  Then the listener makes exactly one delivery, to the window of that plugin with the
  origin recorded for it as target; the message is a response with the id, key and type
  of the request, the result as the only element of \<open>value\<close>, and an error that is absent
  or \<^verbatim>\<open>null\<close>. The manager is unchanged. A callback invoked later is answered against the
  registry of that moment: when the origin then resolves to a non-empty title with an
  entry in \<open>plugins\<close>, by exactly one response, to that plugin's window.
\<close>

theorem request_answered_once:
  assumes "ev_type event = ''message''"
    and "map_of (origins self) (ev_origin event) = Some t" and "t \<noteq> []"
    and "map_of (plugins self) t = Some p"
    and "ev_data event = Some data"
    and "get_prop data ''value'' = Some (JArr vs)"
    and "ToStringU (get_prop data ''key'') = Some k"
    and "ToStringU (get_prop data ''type'') = Some ty"
    and "pluginAPI k ty = Some (Function endpoint)"
    and "endpoint (JStr t # vs) = ([(err, res)], None)"
    and "err = None \<or> err = Some JNull"
  shows "(\<exists>m. onMessage pluginAPI self event =
               (self, [\<lparr>recipient = t, window = content p, message = m, targetOrigin = origin p\<rparr>], None) \<and>
             get_prop m ''action'' = Some (JStr ''response'') \<and>
             get_prop m ''id'' = get_prop data ''id'' \<and>
             get_prop m ''key'' = get_prop data ''key'' \<and>
             get_prop m ''type'' = get_prop data ''type'' \<and>
             get_prop m ''value'' = Some (JArr [elem res]) \<and>
             (get_prop m ''error'' = None \<or> get_prop m ''error'' = Some JNull)) \<and>
         (map_of (origins later) (ev_origin event) = Some t' \<and> t' \<noteq> [] \<and>
            map_of (plugins later) t' = Some p' \<longrightarrow>
            callback (ev_origin event) data later err' res' =
              ([\<lparr>recipient = t', window = content p',
                 message = response_message (get_prop data ''key'') (get_prop data ''type'')
                             (get_prop data ''id'') err' res',
                 targetOrigin = origin p'\<rparr>], None))"
proof -
  let ?m = "response_message (get_prop data ''key'') (get_prop data ''type'') (get_prop data ''id'') err res"
  have "onMessage pluginAPI self event = dispatch pluginAPI self (ev_origin event) t data"
    using assms(1,2,3,5) by (rule onMessage_known)
  also have "\<dots> = (self,
          and_then (for_each (\<lambda>(err, res). callback (ev_origin event) data self err res)
                      (fst (endpoint (JStr t # vs))))
                   ([], snd (endpoint (JStr t # vs))))"
    using assms(6,7,8,9) by (rule dispatch_found)
  also have "\<dots> = (self, [\<lparr>recipient = t, window = content p, message = ?m, targetOrigin = origin p\<rparr>], None)"
    by (simp add: assms(10) callback_known [OF assms(2,3,4)])
  finally have "onMessage pluginAPI self event =
       (self, [\<lparr>recipient = t, window = content p, message = ?m, targetOrigin = origin p\<rparr>], None)" .
  moreover have "get_prop ?m ''error'' = None \<or> get_prop ?m ''error'' = Some JNull"
    using assms(11) by (simp add: response_message_props)
  ultimately have now: "\<exists>m. onMessage pluginAPI self event =
               (self, [\<lparr>recipient = t, window = content p, message = m, targetOrigin = origin p\<rparr>], None) \<and>
             get_prop m ''action'' = Some (JStr ''response'') \<and>
             get_prop m ''id'' = get_prop data ''id'' \<and>
             get_prop m ''key'' = get_prop data ''key'' \<and>
             get_prop m ''type'' = get_prop data ''type'' \<and>
             get_prop m ''value'' = Some (JArr [elem res]) \<and>
             (get_prop m ''error'' = None \<or> get_prop m ''error'' = Some JNull)"
    by (intro exI [of _ ?m]) (simp add: response_message_props)
  show ?thesis
    using now by (auto simp: callback_known)
qed

lemma sample_request_value: "get_prop request ''value'' = Some (JArr [JStr ''f.txt''])"
  "get_prop request ''key'' = Some (JStr ''cfg'')"
  "get_prop request ''type'' = Some (JStr ''getConfig'')"
  "get_prop request ''id'' = Some (JNum ''1'')"
  by (simp_all add: request_def)

theorem request_answered_once_witness:
  "ev_type (from_origin ''https://a'' (Some request)) = ''message'' \<and>
   map_of (origins two_plugins) (ev_origin (from_origin ''https://a'' (Some request))) = Some ''A'' \<and>
   ''A'' \<noteq> [] \<and>
   map_of (plugins two_plugins) ''A'' = Some \<lparr>content = 2, modal = 1, origin = ''https://a''\<rparr> \<and>
   get_prop request ''value'' = Some (JArr [JStr ''f.txt'']) \<and>
   ToStringU (get_prop request ''key'') = Some ''cfg'' \<and>
   ToStringU (get_prop request ''type'') = Some ''getConfig'' \<and>
   cfg_api ''cfg'' ''getConfig'' = Some (Function getConfig) \<and>
   getConfig [JStr ''A'', JStr ''f.txt''] = ([(Some JNull, Some (JStr ''hello''))], None) \<and>
   (\<exists>m. onMessage cfg_api two_plugins (from_origin ''https://a'' (Some request)) =
          (two_plugins,
           [\<lparr>recipient = ''A'', window = 2, message = m, targetOrigin = ''https://a''\<rparr>], None) \<and>
        get_prop m ''action'' = Some (JStr ''response'') \<and>
        get_prop m ''id'' = Some (JNum ''1'') \<and>
        get_prop m ''key'' = Some (JStr ''cfg'') \<and>
        get_prop m ''type'' = Some (JStr ''getConfig'') \<and>
        get_prop m ''value'' = Some (JArr [JStr ''hello'']) \<and>
        (get_prop m ''error'' = None \<or> get_prop m ''error'' = Some JNull)) \<and>
   map_of (origins A_moved) ''https://a'' = Some ''A'' \<and>
   map_of (plugins A_moved) ''A'' = Some \<lparr>content = 6, modal = 5, origin = ''https://a2''\<rparr> \<and>
   callback ''https://a'' request A_moved (Some JNull) (Some (JStr ''later'')) =
     ([\<lparr>recipient = ''A'', window = 6,
        message = response_message (Some (JStr ''cfg'')) (Some (JStr ''getConfig'')) (Some (JNum ''1''))
                    (Some JNull) (Some (JStr ''later'')),
        targetOrigin = ''https://a2''\<rparr>], None)"
proof -
  have o: "map_of (origins A_moved) ''https://a'' = Some ''A''"
    and p: "map_of (plugins A_moved) ''A'' = Some \<lparr>content = 6, modal = 5, origin = ''https://a2''\<rparr>"
    by (simp_all add: A_moved_def plugin_A_moved_def origins_register plugins_register sample_origins)
  note w = request_answered_once [where event = "from_origin ''https://a'' (Some request)"
      and self = two_plugins and t = "''A''"
      and p = "\<lparr>content = 2, modal = 1, origin = ''https://a''\<rparr>" and data = request
      and vs = "[JStr ''f.txt'']" and k = "''cfg''" and ty = "''getConfig''"
      and pluginAPI = cfg_api and endpoint = getConfig and err = "Some JNull"
      and res = "Some (JStr ''hello'')" and later = A_moved and t' = "''A''"
      and p' = "\<lparr>content = 6, modal = 5, origin = ''https://a2''\<rparr>"
      and err' = "Some JNull" and res' = "Some (JStr ''later'')"]
  have h: "ev_type (from_origin ''https://a'' (Some request)) = ''message''"
    "map_of (origins two_plugins) (ev_origin (from_origin ''https://a'' (Some request))) = Some ''A''"
    "''A'' \<noteq> []"
    "map_of (plugins two_plugins) ''A'' = Some \<lparr>content = 2, modal = 1, origin = ''https://a''\<rparr>"
    "ev_data (from_origin ''https://a'' (Some request)) = Some request"
    "get_prop request ''value'' = Some (JArr [JStr ''f.txt''])"
    "ToStringU (get_prop request ''key'') = Some ''cfg''"
    "ToStringU (get_prop request ''type'') = Some ''getConfig''"
    "cfg_api ''cfg'' ''getConfig'' = Some (Function getConfig)"
    "getConfig [JStr ''A'', JStr ''f.txt''] = ([(Some JNull, Some (JStr ''hello''))], None)"
    by (simp_all add: from_origin_def sample_origins sample_plugins sample_request_value
        ToStringU_def cfg_api_def getConfig_def)
  have e: "Some JNull = None \<or> Some JNull = Some JNull" by simp
  note r = w [OF h e]
  from r [THEN conjunct1] have now: "\<exists>m. onMessage cfg_api two_plugins (from_origin ''https://a'' (Some request)) =
          (two_plugins,
           [\<lparr>recipient = ''A'', window = 2, message = m, targetOrigin = ''https://a''\<rparr>], None) \<and>
        get_prop m ''action'' = Some (JStr ''response'') \<and>
        get_prop m ''id'' = Some (JNum ''1'') \<and>
        get_prop m ''key'' = Some (JStr ''cfg'') \<and>
        get_prop m ''type'' = Some (JStr ''getConfig'') \<and>
        get_prop m ''value'' = Some (JArr [JStr ''hello'']) \<and>
        (get_prop m ''error'' = None \<or> get_prop m ''error'' = Some JNull)"
    by (simp add: sample_request_value elem_def)
  from r [THEN conjunct2] o p have later:
    "callback ''https://a'' request A_moved (Some JNull) (Some (JStr ''later'')) =
     ([\<lparr>recipient = ''A'', window = 6,
        message = response_message (Some (JStr ''cfg'')) (Some (JStr ''getConfig'')) (Some (JNum ''1''))
                    (Some JNull) (Some (JStr ''later'')),
        targetOrigin = ''https://a2''\<rparr>], None)"
    by (simp add: from_origin_def sample_request_value)
  from h now later o p show ?thesis
    by (simp add: from_origin_def sample_request_value)
qed

text \<open>
  C2 as stated fails: an origin left in \<open>origins\<close> whose title has no plugin any more has
  its request handled, and the response is dropped by the guard of \<open>post\<close>.
\<close>

theorem request_answered_once_counterexample:
  "map_of (origins orphaned_origin) ''https://a'' = Some ''A'' \<and>
   cfg_api ''cfg'' ''getConfig'' = Some (Function getConfig) \<and>
   getConfig [JStr ''A'', JStr ''f.txt''] = ([(Some JNull, Some (JStr ''hello''))], None) \<and>
   onMessage cfg_api orphaned_origin (from_origin ''https://a'' (Some request)) =
     (orphaned_origin, [], None)"
  by (simp add: orphaned_origin_def origins_unregister plugins_unregister
      sample_origins sample_plugins onMessage_def dispatch_def from_origin_def request_def
      cfg_api_def getConfig_def ToStringU_def callback_def response_def postToOrigin_def post_def
      lookup_property_def Object_prototype_def)

section \<open>Requests without an endpoint, moved plugins, malformed payloads\<close>

text \<open>
  A request for a key and type with no endpoint is answered at once, by one response to
  the plugin of the origin; no endpoint is called. Its error is the text built by the
  template literal.
\<close>

lemma endpoint_missing_response:
  assumes "ev_type event = ''message''"
    and "map_of (origins self) (ev_origin event) = Some t" and "t \<noteq> []"
    and "map_of (plugins self) t = Some p"
    and "ev_data event = Some data"
    and "get_prop data ''value'' = Some (JArr vs)"
    and "ToStringU (get_prop data ''key'') = Some k"
    and "ToStringU (get_prop data ''type'') = Some ty"
    and "pluginAPI k ty = None"
  shows "onMessage pluginAPI self event =
           (self,
            [\<lparr>recipient = t, window = content p,
              message = response_message (get_prop data ''key'') (get_prop data ''type'')
                          (get_prop data ''id'') (Some (JStr (not_present k ty))) (Some JNull),
              targetOrigin = origin p\<rparr>],
            None)"
proof -
  have "onMessage pluginAPI self event = dispatch pluginAPI self (ev_origin event) t data"
    using assms(1,2,3,5) by (rule onMessage_known)
  also have "\<dots> = (self,
          response self (ev_origin event) (get_prop data ''key'') (get_prop data ''type'')
            (get_prop data ''id'') (Some (JStr (not_present k ty))) (Some JNull))"
    using assms(6,7,8,9) by (rule dispatch_missing)
  finally show ?thesis
    by (simp add: response_known [OF assms(2,3,4)])
qed

text \<open>
  C3. For the request of the documentation comment and no endpoint, the one response
  carries as error the string \<^verbatim>\<open>Endpoint cfg/getConfig not present\<close>, where the
  documentation comment of the file and the claim both have an object with a code.
\<close>

theorem endpoint_missing_error_is_text:
  "onMessage no_api two_plugins (from_origin ''https://a'' (Some request)) =
     (two_plugins,
      [\<lparr>recipient = ''A'', window = 2,
        message = JObj [(''id'', JNum ''1''), (''action'', JStr ''response''), (''key'', JStr ''cfg''),
                        (''type'', JStr ''getConfig''),
                        (''error'', JStr ''Endpoint cfg/getConfig not present''),
                        (''value'', JArr [JNull])],
        targetOrigin = ''https://a''\<rparr>],
      None)"
  by (simp add: onMessage_def dispatch_def from_origin_def sample_origins sample_plugins
      request_def no_api_def ToStringU_def response_def postToOrigin_def post_def
      lookup_property_def response_message_def json_field_def elem_def not_present_def)




text \<open>
  C6, as amended. From an origin that resolves to a non-empty title, a payload that
  \<^verbatim>\<open>JSON.parse\<close> rejects makes the listener raise \<^verbatim>\<open>SyntaxError\<close>, and a payload that
  parses to a value whose \<^verbatim>\<open>value\<close> is not an array, or whose key or type does not
  convert to a property name, or whose key and type name a member of the API that is
  truthy and no function, makes it raise \<^verbatim>\<open>TypeError\<close>; in each case before anything is
  sent, and with the manager unchanged.
\<close>

theorem malformed_payload_raises:
  assumes "ev_type event = ''message''"
    and "map_of (origins self) (ev_origin event) = Some t" and "t \<noteq> []"
    and "rejected pluginAPI (ev_data event)"
  shows "onMessage pluginAPI self event =
           (self, [], Some (case ev_data event of None \<Rightarrow> SyntaxError | Some data \<Rightarrow> TypeError))"
proof (cases "ev_data event")
  case None
  with assms show ?thesis by (simp add: onMessage_def)
next
  case (Some data)
  with assms have "onMessage pluginAPI self event = dispatch pluginAPI self (ev_origin event) t data"
    by (simp add: onMessage_known)
  moreover from assms(4) Some have "rejected pluginAPI (Some data)" by simp
  ultimately show ?thesis using Some by (simp add: dispatch_rejected)
qed

theorem malformed_payload_raises_witness:
  "ev_type (from_origin ''https://a'' (Some (JStr ''hello''))) = ''message'' \<and>
   map_of (origins two_plugins) (ev_origin (from_origin ''https://a'' (Some (JStr ''hello'')))) = Some ''A'' \<and>
   ''A'' \<noteq> [] \<and>
   rejected cfg_api (ev_data (from_origin ''https://a'' (Some (JStr ''hello'')))) \<and>
   onMessage cfg_api two_plugins (from_origin ''https://a'' (Some (JStr ''hello''))) =
     (two_plugins, [], Some TypeError) \<and>
   rejected cfg_api (ev_data (from_origin ''https://a'' (Some unnameable_key))) \<and>
   onMessage cfg_api two_plugins (from_origin ''https://a'' (Some unnameable_key)) =
     (two_plugins, [], Some TypeError) \<and>
   rejected not_callable_api (ev_data (from_origin ''https://a'' (Some request))) \<and>
   onMessage not_callable_api two_plugins (from_origin ''https://a'' (Some request)) =
     (two_plugins, [], Some TypeError)"
  using malformed_payload_raises [of "from_origin ''https://a'' (Some (JStr ''hello''))" two_plugins
      "''A''" cfg_api]
    malformed_payload_raises [of "from_origin ''https://a'' (Some unnameable_key)" two_plugins
      "''A''" cfg_api]
    malformed_payload_raises [of "from_origin ''https://a'' (Some request)" two_plugins
      "''A''" not_callable_api]
  by (simp add: from_origin_def sample_origins array_value_def rejected_def unnameable_key_def
      not_callable_api_def request_def ToStringU_def)

text \<open>
  C6 as stated fails: on a payload that is not JSON the listener does not return, it
  raises \<^verbatim>\<open>SyntaxError\<close>.
\<close>

theorem malformed_payload_counterexample:
  "map_of (origins two_plugins) ''https://a'' = Some ''A'' \<and>
   map_of (plugins two_plugins) ''A'' = Some \<lparr>content = 2, modal = 1, origin = ''https://a''\<rparr> \<and>
   onMessage cfg_api two_plugins (from_origin ''https://a'' None) = (two_plugins, [], Some SyntaxError)"
  by (simp add: onMessage_def from_origin_def sample_origins sample_plugins)

section \<open>Focus\<close>

lemma sample_focused:
  "plugins focused_A = plugins two_plugins" "origins focused_A = origins two_plugins"
  "inFocus focused_A = Some ''A''"
  by (simp_all add: focused_A_def)

text \<open>
  A change of focus from a registered, non-empty title to another registered title sends
  \<^verbatim>\<open>unfocus\<close> to the first, then \<^verbatim>\<open>focus\<close> to the second, then one \<^verbatim>\<open>compilationData\<close>
  for each callback of \<^verbatim>\<open>getCompilationResult\<close> whose error is truthy.
\<close>

lemma focus_change_order:
  assumes "inFocus self = Some a" and "a \<noteq> []" and "a \<noteq> b"
    and "map_of (plugins self) a = Some pa" and "map_of (plugins self) b = Some pb"
    and "pluginAPI ''compiler'' ''getCompilationResult'' = Some (Function getCompilationResult)"
  shows "tabChanged pluginAPI self b =
           (self\<lparr>inFocus := Some b\<rparr>,
            [\<lparr>recipient = a, window = content pa, message = notification ''app'' ''unfocus'' [],
              targetOrigin = origin pa\<rparr>,
             \<lparr>recipient = b, window = content pb, message = notification ''app'' ''focus'' [],
              targetOrigin = origin pb\<rparr>] @
            map (\<lambda>(err, data).
                   \<lparr>recipient = b, window = content pb,
                    message = notification ''compiler'' ''compilationData'' [elem data],
                    targetOrigin = origin pb\<rparr>)
                (filter (\<lambda>(err, data). truthy err) (fst (getCompilationResult [JStr b]))),
            snd (getCompilationResult [JStr b]))"
proof -
  have pb: "map_of (plugins (self\<lparr>inFocus := Some b\<rparr>)) b = Some pb"
    using assms(5) by simp
  have push: "for_each (\<lambda>(err, data).
                 if \<not> truthy err then ([], None)
                 else post (self\<lparr>inFocus := Some b\<rparr>) b
                        (notification ''compiler'' ''compilationData'' [elem data])) cs =
        (map (\<lambda>(err, data).
                   \<lparr>recipient = b, window = content pb,
                    message = notification ''compiler'' ''compilationData'' [elem data],
                    targetOrigin = origin pb\<rparr>)
                (filter (\<lambda>(err, data). truthy err) cs), None)" for cs
    by (induction cs) (auto simp: post_known [OF pb])
  show ?thesis
    using assms
    by (simp add: tabChanged_def Let_def post_known push lookup_property_def)
qed

text \<open>
  C7. In the sample installation, focusing \<^verbatim>\<open>A\<close> and then \<^verbatim>\<open>B\<close> sends \<^verbatim>\<open>unfocus\<close> to
  \<^verbatim>\<open>A\<close> and then \<^verbatim>\<open>focus\<close> to \<^verbatim>\<open>B\<close>. When the compiler calls back with data and no
  error nothing more is sent; when it calls back with an error and no data, a
  \<^verbatim>\<open>compilationData\<close> notification carrying \<^verbatim>\<open>null\<close> follows.
\<close>

theorem focus_change_push_inverted:
  "tabChanged compiler_with_data two_plugins ''A'' =
     (focused_A,
      [\<lparr>recipient = ''A'', window = 2, message = notification ''app'' ''focus'' [],
        targetOrigin = ''https://a''\<rparr>],
      None) \<and>
   tabChanged compiler_with_data focused_A ''B'' =
     (two_plugins\<lparr>inFocus := Some ''B''\<rparr>,
      [\<lparr>recipient = ''A'', window = 2, message = notification ''app'' ''unfocus'' [],
        targetOrigin = ''https://a''\<rparr>,
       \<lparr>recipient = ''B'', window = 4, message = notification ''app'' ''focus'' [],
        targetOrigin = ''https://b''\<rparr>],
      None) \<and>
   tabChanged compiler_without_data focused_A ''B'' =
     (two_plugins\<lparr>inFocus := Some ''B''\<rparr>,
      [\<lparr>recipient = ''A'', window = 2, message = notification ''app'' ''unfocus'' [],
        targetOrigin = ''https://a''\<rparr>,
       \<lparr>recipient = ''B'', window = 4, message = notification ''app'' ''focus'' [],
        targetOrigin = ''https://b''\<rparr>,
       \<lparr>recipient = ''B'', window = 4,
        message = notification ''compiler'' ''compilationData'' [JNull],
        targetOrigin = ''https://b''\<rparr>],
      None)"
  by (simp add: tabChanged_def sample_focused sample_plugins sample_inFocus post_def
      lookup_property_def compiler_with_data_def compiler_without_data_def elem_def focused_A_def)




end
